theory Spec2Isabelle
  imports Complex_Main
begin

section \<open>Shared vocabulary\<close>

text \<open>
  Who caused an event (\<^verbatim>\<open>'local'\<close>, \<^verbatim>\<open>'remote'\<close>, \<^verbatim>\<open>'system'\<close>) and the
  members of \<^verbatim>\<open>JsSIP_C.causes\<close> that the modelled code names. \<^verbatim>\<open>Utils.sipErrorCause\<close>
  is a library table that the modelled files only call; its result on a status code is
  kept symbolic as \<open>SipErrorCause code\<close>.
\<close>

datatype originator = Local | Remote | System

datatype cause =
    BYE_CAUSE
  | CANCELED
  | REJECTED
  | REQUEST_TIMEOUT
  | CONNECTION_ERROR
  | SIP_FAILURE_CODE
  | SipErrorCause nat

text \<open>
  The source tests status codes with regular expressions on the decimal rendering of
  the number: \<^verbatim>\<open>/^1[0-9]{2}$/\<close> matches exactly 100..199 and \<^verbatim>\<open>/^2[0-9]{2}$/\<close>
  exactly 200..299.
\<close>

definition is_1xx :: "nat \<Rightarrow> bool" where
  "is_1xx code = (100 \<le> code \<and> code \<le> 199)"

definition is_2xx :: "nat \<Rightarrow> bool" where
  "is_2xx code = (200 \<le> code \<and> code \<le> 299)"


section \<open>lib/Message.js: the MESSAGE applicant\<close>

text \<open>
  The class keeps a \<^verbatim>\<open>_closed\<close> flag; \<^verbatim>\<open>close()\<close> sets it and asks the UA to
  forget the message. Everything the object does to the outside is appended to a log:
  the call of \<^verbatim>\<open>ua.destroyMessage\<close> and every \<^verbatim>\<open>emit\<close>, in program order.
\<close>

datatype message_action =
    DestroyMessage
  | EmitSucceeded originator nat
  | EmitFailed originator "nat option" cause

record message =
  closed :: bool
  msg_log :: "message_action list"

definition Message_new :: message where
  "Message_new = \<lparr>closed = False, msg_log = []\<rparr>"

definition Message_close :: "message \<Rightarrow> message" where
  "Message_close m = m\<lparr>closed := True, msg_log := msg_log m @ [DestroyMessage]\<rparr>"

definition Message_failed :: "originator \<Rightarrow> nat option \<Rightarrow> cause \<Rightarrow> message \<Rightarrow> message" where
  "Message_failed orig response c m =
     (let m1 = Message_close m
      in m1\<lparr>msg_log := msg_log m1 @ [EmitFailed orig response c]\<rparr>)"

definition Message_succeeded :: "originator \<Rightarrow> nat \<Rightarrow> message \<Rightarrow> message" where
  "Message_succeeded orig response m =
     (let m1 = Message_close m
      in m1\<lparr>msg_log := msg_log m1 @ [EmitSucceeded orig response]\<rparr>)"

definition Message_receiveResponse :: "nat \<Rightarrow> message \<Rightarrow> message" where
  "Message_receiveResponse status_code m =
     (if closed m then m
      else if is_1xx status_code then m
      else if is_2xx status_code then Message_succeeded Remote status_code m
      else Message_failed Remote (Some status_code) (SipErrorCause status_code) m)"

definition Message_onRequestTimeout :: "message \<Rightarrow> message" where
  "Message_onRequestTimeout m =
     (if closed m then m else Message_failed System None REQUEST_TIMEOUT m)"

definition Message_onTransportError :: "message \<Rightarrow> message" where
  "Message_onTransportError m =
     (if closed m then m else Message_failed System None CONNECTION_ERROR m)"

text \<open>What the request sender (or the user, for \<^verbatim>\<open>close\<close>) can invoke on a message.\<close>

datatype message_call =
    ReceiveResponse nat
  | OnRequestTimeout
  | OnTransportError
  | Close

fun Message_call :: "message_call \<Rightarrow> message \<Rightarrow> message" where
  "Message_call (ReceiveResponse code) m = Message_receiveResponse code m"
| "Message_call OnRequestTimeout m = Message_onRequestTimeout m"
| "Message_call OnTransportError m = Message_onTransportError m"
| "Message_call Close m = Message_close m"

fun Message_run :: "message_call list \<Rightarrow> message \<Rightarrow> message" where
  "Message_run [] m = m"
| "Message_run (c # cs) m = Message_run cs (Message_call c m)"

fun is_terminal :: "message_action \<Rightarrow> bool" where
  "is_terminal DestroyMessage = False"
| "is_terminal (EmitSucceeded _ _) = True"
| "is_terminal (EmitFailed _ _ _) = True"

definition terminal_count :: "message \<Rightarrow> nat" where
  "terminal_count m = length (filter is_terminal (msg_log m))"

fun is_callback :: "message_call \<Rightarrow> bool" where
  "is_callback Close = False"
| "is_callback _ = True"


section \<open>RequestSender: UA status gate and digest retry\<close>

text \<open>
  The class of \<^verbatim>\<open>RequestSender\<close> that takes \<^verbatim>\<open>(applicant, ua)\<close>. Methods are the
  strings of \<^verbatim>\<open>JsSIP_C\<close>. \<^verbatim>\<open>DigestAuthentication\<close> is a collaborator the file
  only calls, so its four operations are a parameter: whether it accepts a challenge
  for a request, and the realm, ha1 and header text it then yields.
\<close>

datatype ua_status = STATUS_INIT | STATUS_READY | STATUS_USER_CLOSED | STATUS_NOT_READY

definition BYE :: string where "BYE = ''BYE''"
definition ACK :: string where "ACK = ''ACK''"
definition INVITE :: string where "INVITE = ''INVITE''"
definition REGISTER :: string where "REGISTER = ''REGISTER''"

record challenge =
  ch_realm :: string
  ch_nonce :: string
  ch_stale :: bool

record response =
  status_code :: nat
  resp_method :: string
  www_authenticate :: "challenge option"
  proxy_authenticate :: "challenge option"

record request =
  req_method :: string
  req_cseq :: nat
  cseq_header :: "(nat \<times> string) option"
  authorization :: "string option"
  proxy_authorization :: "string option"

record ua_configuration =
  password :: "string option"
  ha1 :: "string option"
  realm :: "string option"


datatype client_transaction =
    InviteClientTransaction
  | AckClientTransaction
  | NonInviteClientTransaction

datatype sender_action =
    ApplicantOnTransportError
  | ApplicantOnRequestTimeout
  | ApplicantReceiveResponse response
  | TransactionSend client_transaction request

text \<open>
  \<open>applicant_cseq\<close> is \<^verbatim>\<open>applicant.cseq\<close> (the registrar client's counter) and
  \<open>dialog_local_seqnum\<close> is \<^verbatim>\<open>request.dialog.local_seqnum\<close>, absent when the request
  is out of dialog. \<open>auth_created\<close> says whether \<^verbatim>\<open>this.auth\<close> is still null.
\<close>

record request_sender =
  rs_configuration :: ua_configuration
  rs_method :: string
  rs_request :: request
  auth_created :: bool
  challenged :: bool
  staled :: bool
  applicant_cseq :: nat
  dialog_local_seqnum :: "nat option"
  rs_log :: "sender_action list"

definition RequestSender_onTransportError :: "request_sender \<Rightarrow> request_sender" where
  "RequestSender_onTransportError s = s\<lparr>rs_log := rs_log s @ [ApplicantOnTransportError]\<rparr>"

definition RequestSender_onRequestTimeout :: "request_sender \<Rightarrow> request_sender" where
  "RequestSender_onRequestTimeout s = s\<lparr>rs_log := rs_log s @ [ApplicantOnRequestTimeout]\<rparr>"

definition RequestSender_new ::
  "ua_status \<Rightarrow> ua_configuration \<Rightarrow> request \<Rightarrow> nat \<Rightarrow> nat option \<Rightarrow> request_sender" where
  "RequestSender_new ua_st conf req app_cseq dlg =
     (let s = \<lparr>rs_configuration = conf, rs_method = req_method req, rs_request = req,
                auth_created = False, challenged = False, staled = False,
                applicant_cseq = app_cseq, dialog_local_seqnum = dlg, rs_log = []\<rparr>
      in if ua_st = STATUS_USER_CLOSED \<and> (rs_method s \<noteq> BYE \<or> rs_method s \<noteq> ACK)
         then RequestSender_onTransportError s
         else s)"

definition RequestSender_send :: "request_sender \<Rightarrow> request_sender" where
  "RequestSender_send s =
     (let t = (if rs_method s = ''INVITE'' then InviteClientTransaction
               else if rs_method s = ''ACK'' then AckClientTransaction
               else NonInviteClientTransaction)
      in s\<lparr>rs_log := rs_log s @ [TransactionSend t (rs_request s)]\<rparr>)"

definition forward_to_applicant :: "response \<Rightarrow> request_sender \<Rightarrow> request_sender" where
  "forward_to_applicant r s = s\<lparr>rs_log := rs_log s @ [ApplicantReceiveResponse r]\<rparr>"

text \<open>
  The three ways the retry picks its CSeq: the registrar client's counter for a response
  to REGISTER, the dialog's counter for an in-dialog request, else the request's own
  CSeq plus one. Both counters are incremented in place.
\<close>

definition next_cseq :: "response \<Rightarrow> request_sender \<Rightarrow> nat \<times> request_sender" where
  "next_cseq r s =
     (if resp_method r = REGISTER
      then (applicant_cseq s + 1, s\<lparr>applicant_cseq := applicant_cseq s + 1\<rparr>)
      else case dialog_local_seqnum s of
             Some n \<Rightarrow> (n + 1, s\<lparr>dialog_local_seqnum := Some (n + 1)\<rparr>)
           | None \<Rightarrow> (req_cseq (rs_request s) + 1, s))"





fun is_send :: "sender_action \<Rightarrow> bool" where
  "is_send (TransactionSend _ _) = True"
| "is_send _ = False"

definition sends :: "request_sender \<Rightarrow> nat" where
  "sends s = length (filter is_send (rs_log s))"

definition retry_budget :: "request_sender \<Rightarrow> nat" where
  "retry_budget s = (if challenged s then 0 else 1) + (if staled s then 0 else 1)"


definition with_password :: ua_configuration where
  "with_password = \<lparr>password = Some ''secret'', ha1 = None, realm = None\<rparr>"

definition request_of :: "string \<Rightarrow> nat \<Rightarrow> request" where
  "request_of m n = \<lparr>req_method = m, req_cseq = n, cseq_header = Some (n, m),
                     authorization = None, proxy_authorization = None\<rparr>"



section \<open>Registrator: responses to REGISTER\<close>

text \<open>
  The registrar client keeps the requested \<^verbatim>\<open>expires\<close>, its CSeq counter, the
  \<^verbatim>\<open>registered\<close> flag and one timer handle. A pending timer is recorded by its delay in
  milliseconds (an \<open>int\<close>: \<^verbatim>\<open>expires * 1000 - 3000\<close> can be negative); when it fires it
  calls \<^verbatim>\<open>register()\<close>. Numeric header values are modelled by the number they denote.
  The log holds the REGISTER requests handed to the request sender (with their CSeq and
  the \<^verbatim>\<open>expires\<close> written into their Contact) and the events emitted on the UA.
  Arming a timer overwrites the handle; a timer armed before and never cleared is not
  tracked. In the 423 branch the local variable \<^verbatim>\<open>expires\<close> receives
  \<^verbatim>\<open>min_expires - this.expires\<close> and is not read again.
\<close>

record contact =
  c_uri :: string
  c_expires :: "nat option"
  c_temp_gruu :: "string option"
  c_pub_gruu :: "string option"

record register_response =
  reg_status_code :: nat
  reg_resp_cseq :: nat
  expires_header :: "nat option"
  min_expires_header :: "nat option"
  contacts :: "contact list"

datatype registrator_action =
    SendRegister nat nat
  | EmitRegistered
  | EmitRegistrationFailed cause
  | EmitUnregistered

record registrator =
  expires :: nat
  reg_cseq :: nat
  ua_contact_uri :: string
  registered :: bool
  registrationTimer :: "int option"
  temp_gruu :: "string option"
  pub_gruu :: "string option"
  reg_log :: "registrator_action list"

definition Registrator_register :: "registrator \<Rightarrow> registrator" where
  "Registrator_register s =
     s\<lparr>reg_cseq := reg_cseq s + 1,
       reg_log := reg_log s @ [SendRegister (reg_cseq s + 1) (expires s)]\<rparr>"

definition registrationFailure :: "cause \<Rightarrow> registrator \<Rightarrow> registrator" where
  "registrationFailure c s =
     (let s1 = s\<lparr>reg_log := reg_log s @ [EmitRegistrationFailed c]\<rparr>
      in if registered s1
         then s1\<lparr>registered := False, reg_log := reg_log s1 @ [EmitUnregistered]\<rparr>
         else s1)"

text \<open>
  The \<^verbatim>\<open>while(contacts--)\<close> loop: Contact headers are visited from the last to the
  first; \<open>cur\<close> is the header last looked at and \<open>e\<close> the value of the local
  \<^verbatim>\<open>expires\<close>. The loop stops at the first header whose URI is ours and takes that
  header's \<^verbatim>\<open>expires\<close> parameter, present or not.
\<close>

fun scan_contacts ::
  "string \<Rightarrow> contact list \<Rightarrow> contact option \<Rightarrow> nat option \<Rightarrow> contact option \<times> nat option" where
  "scan_contacts uri [] cur e = (cur, e)"
| "scan_contacts uri (c # cs) cur e =
     (if c_uri c = uri then (Some c, c_expires c) else scan_contacts uri cs (Some c) e)"

definition set_gruu :: "contact \<Rightarrow> registrator \<Rightarrow> registrator" where
  "set_gruu c s =
     (let s1 = (case c_temp_gruu c of Some g \<Rightarrow> s\<lparr>temp_gruu := Some (filter (\<lambda>x. x \<noteq> CHR 0x22) g)\<rparr>
                | None \<Rightarrow> s)
      in case c_pub_gruu c of Some g \<Rightarrow> s1\<lparr>pub_gruu := Some (filter (\<lambda>x. x \<noteq> CHR 0x22) g)\<rparr>
         | None \<Rightarrow> s1)"

definition Registrator_receiveResponse :: "register_response \<Rightarrow> registrator \<Rightarrow> registrator" where
  "Registrator_receiveResponse r s =
     (if reg_resp_cseq r \<noteq> reg_cseq s then s
      else if is_1xx (reg_status_code r) then s
      else if is_2xx (reg_status_code r) then
        (if contacts r = [] then s
         else case scan_contacts (ua_contact_uri s) (rev (contacts r)) None (expires_header r) of
                (None, _) \<Rightarrow> s
              | (Some c, e) \<Rightarrow>
                  (let e1 = (case e of None \<Rightarrow> expires s | Some v \<Rightarrow> v);
                       s1 = s\<lparr>registrationTimer := Some (int e1 * 1000 - 3000)\<rparr>;
                       s2 = set_gruu c s1
                   in s2\<lparr>registered := True, reg_log := reg_log s2 @ [EmitRegistered]\<rparr>))
      else if reg_status_code r = 423 then
        (case min_expires_header r of
           Some min_expires \<Rightarrow>
             (let expires_local = int min_expires - int (expires s)
              in s\<lparr>registrationTimer := Some (int (expires s) * 1000)\<rparr>)
         | None \<Rightarrow> registrationFailure SIP_FAILURE_CODE s)
      else registrationFailure (SipErrorCause (reg_status_code r)) s)"

text \<open>The registration timer firing: the handle's callback is \<^verbatim>\<open>self.register()\<close>.\<close>

definition Registrator_timer_fires :: "registrator \<Rightarrow> registrator" where
  "Registrator_timer_fires s =
     (case registrationTimer s of
        None \<Rightarrow> s
      | Some _ \<Rightarrow> Registrator_register (s\<lparr>registrationTimer := None\<rparr>))"

definition registrator_600 :: registrator where
  "registrator_600 = \<lparr>expires = 600, reg_cseq = 81, ua_contact_uri = ''sip:alice@example.invalid'',
     registered = False, registrationTimer = None, temp_gruu = None, pub_gruu = None,
     reg_log = [SendRegister 81 600]\<rparr>"

definition interval_too_brief :: "nat option \<Rightarrow> register_response" where
  "interval_too_brief m = \<lparr>reg_status_code = 423, reg_resp_cseq = 81, expires_header = None,
     min_expires_header = m, contacts = []\<rparr>"


section \<open>UA: transport recovery\<close>

text \<open>
  \<^verbatim>\<open>getNextWsServer\<close> and \<^verbatim>\<open>recoverTransport\<close> of \<^verbatim>\<open>src/UA.js\<close>. A server's
  status is compared with the literal 2 and reset with the literal 0 there; these are
  \<open>WS_SERVER_ERROR\<close> and \<open>WS_SERVER_READY\<close>. A server is referred to by its index in
  \<^verbatim>\<open>configuration.ws_servers\<close>. Each call of \<^verbatim>\<open>Math.random()\<close> is a parameter
  \<open>r\<close> with \<open>0 \<le> r < 1\<close>, and numbers are exact rationals.
\<close>

datatype ws_server_status = WS_SERVER_READY | WS_SERVER_DISCONNECTED | WS_SERVER_ERROR

record ws_server =
  ws_uri :: string
  weight :: nat
  ws_status :: ws_server_status

datatype ua_error = UA_CONFIGURATION_ERROR | UA_NETWORK_ERROR

datatype ua_action =
    EmitConnected
  | NewTransport "nat option"
  | RegistratorOnTransportConnected
  | NewRegistrator
  | UARegister

record ua =
  ua_state :: ua_status
  ua_err :: "ua_error option"
  transportRecoverAttempts :: nat
  ws_servers :: "ws_server list"
  connection_recovery_min_interval :: rat
  connection_recovery_max_interval :: rat
  transport :: "nat option"
  configuration_register :: bool
  has_registrator :: bool
  ua_log :: "ua_action list"










section \<open>Session.RequestSender: glare on re-INVITE\<close>

text \<open>
  The in-dialog sender of \<^verbatim>\<open>src/UA.js\<close>. \<^verbatim>\<open>getReattemptTimeout\<close> returns the text of
  \<^verbatim>\<open>toFixed(2)\<close>: the number rounded to hundredths (the larger neighbour on a tie),
  modelled by the rational it denotes. That value is what \<^verbatim>\<open>setTimeout\<close> is given as
  its delay, and \<^verbatim>\<open>setTimeout\<close> counts milliseconds: \<open>reatemptTimer\<close> records the
  delay of the armed timer in that unit.
\<close>

datatype session_status =
    STATUS_NULL
  | STATUS_INVITE_SENT
  | STATUS_1XX_RECEIVED
  | STATUS_INVITE_RECEIVED
  | STATUS_WAITING_FOR_ANSWER
  | STATUS_ANSWERED
  | STATUS_WAITING_FOR_ACK
  | STATUS_CANCELED
  | STATUS_TERMINATED
  | STATUS_CONFIRMED

datatype session_sender_action =
    SessionApplicantReceiveResponse string nat
  | InDialogSend nat

record session_request_sender =
  srs_session_status :: session_status
  srs_direction :: string
  reattempt :: bool
  srs_request_cseq :: nat
  srs_local_seqnum :: nat
  reatemptTimer :: "rat option"
  srs_log :: "session_sender_action list"

definition toFixed2 :: "rat \<Rightarrow> rat" where
  "toFixed2 x = of_int \<lfloor>x * 100 + 1 / 2\<rfloor> / 100"

definition getReattemptTimeout :: "string \<Rightarrow> rat \<Rightarrow> rat" where
  "getReattemptTimeout direction r =
     (if direction = ''outgoing'' then toFixed2 (r * (4 - 21 / 10) + 21 / 10)
      else toFixed2 (r * 2))"

definition SessionRequestSender_receiveResponse ::
  "rat \<Rightarrow> string \<Rightarrow> nat \<Rightarrow> session_request_sender \<Rightarrow> session_request_sender" where
  "SessionRequestSender_receiveResponse r method code s =
     (if method = INVITE \<and> code = 491 then
        (if \<not> reattempt s then
           s\<lparr>srs_local_seqnum := srs_local_seqnum s + 1,
             srs_request_cseq := srs_local_seqnum s + 1,
             reatemptTimer := Some (getReattemptTimeout (srs_direction s) r)\<rparr>
         else s\<lparr>srs_log := srs_log s @ [SessionApplicantReceiveResponse method code]\<rparr>)
      else s\<lparr>srs_log := srs_log s @ [SessionApplicantReceiveResponse method code]\<rparr>)"

definition reattempt_timeout :: "session_request_sender \<Rightarrow> session_request_sender" where
  "reattempt_timeout s =
     (case reatemptTimer s of
        None \<Rightarrow> s
      | Some _ \<Rightarrow>
          (let s1 = s\<lparr>reatemptTimer := None\<rparr>
           in if srs_session_status s1 \<noteq> STATUS_TERMINATED
              then s1\<lparr>reattempt := True,
                      srs_log := srs_log s1 @ [InDialogSend (srs_request_cseq s1)]\<rparr>
              else s1))"

definition reinvite_sender :: "string \<Rightarrow> session_request_sender" where
  "reinvite_sender direction =
     \<lparr>srs_session_status = STATUS_CONFIRMED, srs_direction = direction, reattempt = False,
      srs_request_cseq = 7, srs_local_seqnum = 7, reatemptTimer = None,
      srs_log = [InDialogSend 7]\<rparr>"


section \<open>URI and NameAddrHeader: printing\<close>

text \<open>
  \<^verbatim>\<open>src/URI.js\<close> and \<^verbatim>\<open>src/NameAddrHeader.js\<close>. An object's \<^verbatim>\<open>parameters\<close> is an
  association list in the order \<^verbatim>\<open>for (p in parameters)\<close> visits it (insertion
  order for keys that are not array indices); a parameter without value is stored as
  \<^verbatim>\<open>null\<close>, here \<open>None\<close>. Strings are sequences of UTF-8 bytes, which is what
  \<^verbatim>\<open>encodeURIComponent\<close> escapes. \<^verbatim>\<open>JsSIP.C.SIP\<close> is the scheme \<^verbatim>\<open>sip\<close> that the
  expected strings of \<^verbatim>\<open>test-parser.js\<close> show.
\<close>

definition SIP :: string where "SIP = ''sip''"

definition digits :: string where "digits = ''0123456789ABCDEF''"

fun decimal :: "nat \<Rightarrow> string" where
  "decimal n = (if n < 10 then [digits ! n] else decimal (n div 10) @ [digits ! (n mod 10)])"

declare decimal.simps [simp del]

definition toLowerCase_char :: "char \<Rightarrow> char" where
  "toLowerCase_char c =
     (case map_of (zip ''ABCDEFGHIJKLMNOPQRSTUVWXYZ'' ''abcdefghijklmnopqrstuvwxyz'') c of
        Some l \<Rightarrow> l
      | None \<Rightarrow> c)"

definition toLowerCase :: "string \<Rightarrow> string" where
  "toLowerCase s = map toLowerCase_char s"

definition unreserved :: "char \<Rightarrow> bool" where
  "unreserved c =
     (let n = (of_char c :: nat)
      in (65 \<le> n \<and> n \<le> 90) \<or> (97 \<le> n \<and> n \<le> 122) \<or> (48 \<le> n \<and> n \<le> 57)
         \<or> n = 39 \<or> c \<in> set ''-_.!~*()'')"

definition encodeURIComponent :: "string \<Rightarrow> string" where
  "encodeURIComponent s =
     concat (map (\<lambda>c. if unreserved c then [c]
                        else [CHR ''%'', digits ! ((of_char c :: nat) div 16),
                              digits ! ((of_char c :: nat) mod 16)]) s)"

type_synonym parameters = "(string \<times> string option) list"

text \<open>\<^verbatim>\<open>obj[key] = value\<close> on such an object: replace in place, or append a new key.\<close>

fun assign :: "string \<Rightarrow> 'v \<Rightarrow> (string \<times> 'v) list \<Rightarrow> (string \<times> 'v) list" where
  "assign k v [] = [(k, v)]"
| "assign k v ((k', v') # ps) = (if k' = k then (k, v) # ps else (k', v') # assign k v ps)"

definition setParam :: "string \<Rightarrow> string option \<Rightarrow> parameters \<Rightarrow> parameters" where
  "setParam key val ps = (if key \<noteq> [] then assign (toLowerCase key) val ps else ps)"

definition getParam :: "string \<Rightarrow> parameters \<Rightarrow> string option option" where
  "getParam key ps = (if key \<noteq> [] then map_of ps (toLowerCase key) else None)"

record uri =
  scheme :: "string option"
  user :: "string option"
  host :: string
  port :: "nat option"
  uri_parameters :: parameters
  uri_headers :: "(string \<times> string list) list"

definition print_parameter :: "string \<times> string option \<Rightarrow> string" where
  "print_parameter p =
     [CHR '';''] @ fst p @ (case snd p of None \<Rightarrow> [] | Some x \<Rightarrow> [CHR ''=''] @ x)"

definition print_parameters :: "parameters \<Rightarrow> string" where
  "print_parameters ps = concat (map print_parameter ps)"

fun join :: "string \<Rightarrow> string list \<Rightarrow> string" where
  "join sep [] = []"
| "join sep [x] = x"
| "join sep (x # y # ys) = x @ sep @ join sep (y # ys)"

definition URI_toString :: "uri \<Rightarrow> string" where
  "URI_toString u =
     (let headers = concat (map (\<lambda>(h, vs). map (\<lambda>v. h @ [CHR ''=''] @ v) vs) (uri_headers u))
      in (case scheme u of None \<Rightarrow> SIP | Some s \<Rightarrow> if s = [] then SIP else s)
         @ [CHR '':'']
         @ (case user u of None \<Rightarrow> []
            | Some n \<Rightarrow> if n = [] then [] else encodeURIComponent n @ [CHR ''@''])
         @ host u
         @ (case port u of None \<Rightarrow> []
            | Some n \<Rightarrow> if n = 0 then [] else [CHR '':''] @ decimal n)
         @ print_parameters (map (\<lambda>(k, v). (toLowerCase k, v)) (uri_parameters u))
         @ (if headers \<noteq> [] then [CHR ''?''] @ join [CHR ''&''] headers else []))"

record name_addr_header =
  na_uri :: uri
  display_name :: "string option"
  na_parameters :: parameters

definition NameAddrHeader_new :: "uri \<Rightarrow> string option \<Rightarrow> parameters \<Rightarrow> name_addr_header" where
  "NameAddrHeader_new u dn ps =
     \<lparr>na_uri = u, display_name = dn,
      na_parameters = fold (\<lambda>(k, v). setParam k v) ps []\<rparr>"

definition NameAddrHeader_toString :: "name_addr_header \<Rightarrow> string" where
  "NameAddrHeader_toString h =
     (let named = (case display_name h of None \<Rightarrow> False | Some n \<Rightarrow> n \<noteq> []);
          body = (if named then [CHR 0x22] @ the (display_name h) @ [CHR 0x22, CHR 0x20] else [])
                 @ (if named then [CHR ''<''] @ URI_toString (na_uri h) @ [CHR ''>'']
                    else URI_toString (na_uri h))
      in body @ print_parameters (na_parameters h))"

text \<open>
  The second Contact of \<^verbatim>\<open>test-parser.js\<close> (\<^verbatim>\<open>sip:bob@biloxi.COM;headerParam\<close>, no
  display name) as the test reads it back, and two headers without display name that
  carry the same parameter once in the URI and once in the header.
\<close>

definition bob :: uri where
  "bob = \<lparr>scheme = Some ''sip'', user = Some ''bob'', host = ''biloxi.com'', port = None,
          uri_parameters = [], uri_headers = []\<rparr>"

definition contact_c2 :: name_addr_header where
  "contact_c2 = NameAddrHeader_new bob None [(''headerParam'', None)]"

definition param_in_uri :: name_addr_header where
  "param_in_uri =
     NameAddrHeader_new (bob\<lparr>uri_parameters := [(''transport'', Some ''ws'')]\<rparr>) None []"

definition param_in_header :: name_addr_header where
  "param_in_header = NameAddrHeader_new bob None [(''Transport'', Some ''ws'')]"


section \<open>RTCSession: state, close, terminate\<close>

text \<open>
  The session class whose constructor takes \<^verbatim>\<open>(ua)\<close>. Only the fields that
  \<^verbatim>\<open>terminate\<close>, \<^verbatim>\<open>sendDTMF\<close>, \<^verbatim>\<open>mangleOffer\<close> and the functions they call read or
  write are kept. \<open>bye_on_ack\<close> holds the extra headers and body of the BYE that the
  replaced \<^verbatim>\<open>receiveRequest\<close> sends when the ACK arrives. What the session does to its
  collaborators (peer connection, dialogs, the INVITE request, event listeners, timers)
  is appended to \<open>rtc_log\<close> in program order. \<open>session_status\<close> lists the states of
  both session classes; \<open>STATUS_ANSWERED\<close> exists in this one only.
\<close>

datatype js_error =
    TypeError_NotEnoughArguments
  | TypeError_InvalidTones
  | TypeError_InvalidToneDuration
  | TypeError_InvalidInterToneGap
  | TypeError_InvalidStatusCode nat
  | TypeError_InvalidMethod
  | InvalidStateError session_status

datatype rtc_action =
    ConnectionClose
  | CloseMediaStream
  | ClearTimers
  | DialogTerminate
  | EarlyDialogsTerminate nat
  | ForgetSession
  | RestoreDialog
  | EmitEnded originator cause
  | EmitSessionFailed originator cause
  | RequestCancel "string option"
  | RequestReply nat "string option" "string list" "string option"
  | SendRequest string "string list" "string option"
  | DtmfSend char int
  | SetTimeout int

record rtcsession =
  rtc_status :: session_status
  rtc_direction :: "string option"
  has_connection :: bool
  own_media_stream :: bool
  has_dialog :: bool
  early_dialogs :: nat
  in_ua_sessions :: bool
  received_100 :: bool
  server_transaction_terminated :: bool
  localHold :: bool
  remoteHold :: bool
  tones :: "string option"
  isCanceled :: bool
  cancelReason :: "string option"
  bye_on_ack :: "(string list \<times> string option) option"
  rtc_log :: "rtc_action list"

record terminate_options =
  opt_cause :: "cause option"
  opt_extraHeaders :: "string list"
  opt_body :: "string option"
  opt_status_code :: "nat option"
  opt_reason_phrase :: "string option"

definition say :: "rtc_action list \<Rightarrow> rtcsession \<Rightarrow> rtcsession" where
  "say as s = s\<lparr>rtc_log := rtc_log s @ as\<rparr>"

definition RTCSession_close :: "rtcsession \<Rightarrow> rtcsession" where
  "RTCSession_close s =
     (if rtc_status s = STATUS_TERMINATED then s
      else
        (let s1 = (if has_connection s then say [ConnectionClose] s else s);
             s2 = (if own_media_stream s1 then say [CloseMediaStream] s1 else s1);
             s3 = say [ClearTimers] s2;
             s4 = (if has_dialog s3 then (say [DialogTerminate] s3)\<lparr>has_dialog := False\<rparr> else s3);
             s5 = (if early_dialogs s4 > 0
                   then (say [EarlyDialogsTerminate (early_dialogs s4)] s4)\<lparr>early_dialogs := 0\<rparr>
                   else s4)
         in (say [ForgetSession] s5)\<lparr>rtc_status := STATUS_TERMINATED, in_ua_sessions := False\<rparr>))"

definition ended :: "originator \<Rightarrow> cause \<Rightarrow> rtcsession \<Rightarrow> rtcsession" where
  "ended orig c s = say [EmitEnded orig c] (RTCSession_close s)"

definition failed :: "originator \<Rightarrow> cause \<Rightarrow> rtcsession \<Rightarrow> rtcsession" where
  "failed orig c s = say [EmitSessionFailed orig c] (RTCSession_close s)"

text \<open>
  JavaScript truthiness of an optional number and of an optional string, and
  \<^verbatim>\<open>a || b\<close> on optional strings.
\<close>

definition truthy_code :: "nat option \<Rightarrow> bool" where
  "truthy_code c = (case c of None \<Rightarrow> False | Some n \<Rightarrow> n \<noteq> 0)"

definition or_else :: "string option \<Rightarrow> string \<Rightarrow> string" where
  "or_else a b = (case a of None \<Rightarrow> b | Some x \<Rightarrow> if x = [] then b else x)"

definition reason_text :: "(nat \<Rightarrow> string) \<Rightarrow> terminate_options \<Rightarrow> string" where
  "reason_text REASON_PHRASE opts =
     or_else (opt_reason_phrase opts)
       (case opt_status_code opts of None \<Rightarrow> [] | Some c \<Rightarrow> REASON_PHRASE c)"

text \<open>
  \<^verbatim>\<open>terminate(options)\<close>. \<^verbatim>\<open>JsSIP_C.REASON_PHRASE\<close> is a table of the constants file,
  given as the parameter \<open>REASON_PHRASE\<close> (the empty string where the table has no
  entry). The result pairs the exception thrown, if any, with the state left behind.
\<close>

definition RTCSession_terminate ::
  "(nat \<Rightarrow> string) \<Rightarrow> terminate_options \<Rightarrow> rtcsession \<Rightarrow> js_error option \<times> rtcsession" where
  "RTCSession_terminate REASON_PHRASE opts s =
     (let cause = (case opt_cause opts of None \<Rightarrow> BYE_CAUSE | Some c \<Rightarrow> c);
          code = opt_status_code opts
      in
      if rtc_status s = STATUS_TERMINATED then (Some (InvalidStateError (rtc_status s)), s)
      else if rtc_status s \<in> {STATUS_NULL, STATUS_INVITE_SENT, STATUS_1XX_RECEIVED} then
        (if truthy_code code \<and> (the code < 200 \<or> the code \<ge> 700)
         then (Some (TypeError_InvalidStatusCode (the code)), s)
         else
           (let cancel_reason =
                  (if truthy_code code
                   then Some (''SIP ;cause='' @ decimal (the code) @ '' ;text='' @ [CHR 0x22]
                              @ reason_text REASON_PHRASE opts @ [CHR 0x22])
                   else None);
                s1 = (if rtc_status s = STATUS_NULL \<or> rtc_status s = STATUS_INVITE_SENT
                      then s\<lparr>isCanceled := True, cancelReason := cancel_reason\<rparr>
                      else say [RequestCancel cancel_reason] s)
            in (None, failed Local CANCELED (s1\<lparr>rtc_status := STATUS_CANCELED\<rparr>))))
      else if rtc_status s \<in> {STATUS_WAITING_FOR_ANSWER, STATUS_ANSWERED} then
        (let status_code = (if truthy_code code then the code else 480)
         in if status_code < 300 \<or> status_code \<ge> 700
            then (Some (TypeError_InvalidStatusCode status_code), s)
            else (None, failed Local REJECTED
                    (say [RequestReply status_code (opt_reason_phrase opts)
                            (opt_extraHeaders opts) (opt_body opts)] s)))
      else if rtc_status s \<in> {STATUS_WAITING_FOR_ACK, STATUS_CONFIRMED} then
        (if truthy_code code \<and> (the code < 200 \<or> the code \<ge> 700)
         then (Some (TypeError_InvalidStatusCode (the code)), s)
         else
           (let extraHeaders =
                  (if truthy_code code
                   then opt_extraHeaders opts
                        @ [''Reason: SIP ;cause='' @ decimal (the code) @ ''; text='' @ [CHR 0x22]
                           @ reason_text REASON_PHRASE opts @ [CHR 0x22]]
                   else opt_extraHeaders opts)
            in if rtc_status s = STATUS_WAITING_FOR_ACK \<and> rtc_direction s = Some ''incoming''
                  \<and> \<not> server_transaction_terminated s
               then
                 (let s1 = s\<lparr>bye_on_ack := Some (extraHeaders, opt_body opts)\<rparr>;
                      s2 = ended Local cause s1
                  in (None, (say [RestoreDialog] s2)\<lparr>has_dialog := has_dialog s\<rparr>))
               else (None, ended Local cause
                             (say [SendRequest BYE extraHeaders (opt_body opts)] s))))
      else (None, s))"


section \<open>Session (UA.js): terminate\<close>

text \<open>
  The older session class of \<^verbatim>\<open>src/UA.js\<close>, on the same state record:
  \<^verbatim>\<open>terminate\<close> dispatches to \<^verbatim>\<open>cancel\<close>, \<^verbatim>\<open>reject\<close> or \<^verbatim>\<open>sendBye\<close> and then calls
  \<^verbatim>\<open>close\<close>. Its \<^verbatim>\<open>close\<close> shuts the media session, clears the timers and terminates
  the dialogs.
\<close>

definition Session_close :: "rtcsession \<Rightarrow> rtcsession" where
  "Session_close s =
     (if rtc_status s \<noteq> STATUS_TERMINATED then
        (let s1 = (if has_connection s then say [ConnectionClose] s else s);
             s2 = say [ClearTimers] s1;
             s3 = (if early_dialogs s2 > 0
                   then (say [EarlyDialogsTerminate (early_dialogs s2)] s2)\<lparr>early_dialogs := 0\<rparr>
                   else s2);
             s4 = (if has_dialog s3 then (say [DialogTerminate] s3)\<lparr>has_dialog := False\<rparr> else s3)
         in s4\<lparr>rtc_status := STATUS_TERMINATED\<rparr>)
      else s)"

definition Session_failed :: "originator \<Rightarrow> cause \<Rightarrow> rtcsession \<Rightarrow> rtcsession" where
  "Session_failed orig c s = say [EmitSessionFailed orig c] (Session_close s)"

definition Session_ended :: "originator \<Rightarrow> cause \<Rightarrow> rtcsession \<Rightarrow> rtcsession" where
  "Session_ended orig c s = say [EmitEnded orig c] (Session_close s)"

definition Session_cancel ::
  "(nat \<Rightarrow> string) \<Rightarrow> terminate_options \<Rightarrow> rtcsession \<Rightarrow> js_error option \<times> rtcsession" where
  "Session_cancel REASON_PHRASE opts s =
     (let code = opt_status_code opts
      in if rtc_direction s \<noteq> Some ''outgoing'' then (Some TypeError_InvalidMethod, s)
         else if truthy_code code \<and> (the code < 200 \<or> the code \<ge> 700)
         then (Some (TypeError_InvalidStatusCode (the code)), s)
         else
           (let reason =
                  (if truthy_code code
                   then Some (''SIP ;cause='' @ decimal (the code) @ '' ;text='' @ [CHR 0x22]
                              @ reason_text REASON_PHRASE opts @ [CHR 0x22])
                   else None)
            in if rtc_status s = STATUS_NULL
               then (None, Session_failed Local CANCELED
                             (s\<lparr>isCanceled := True, cancelReason := reason\<rparr>))
               else if rtc_status s = STATUS_INVITE_SENT
               then (if received_100 s
                     then (None, Session_failed Local CANCELED (say [RequestCancel reason] s))
                     else (None, Session_failed Local CANCELED
                                   (s\<lparr>isCanceled := True, cancelReason := reason\<rparr>)))
               else if rtc_status s = STATUS_1XX_RECEIVED
               then (None, Session_failed Local CANCELED (say [RequestCancel reason] s))
               else (Some (InvalidStateError (rtc_status s)), s)))"

definition Session_reject ::
  "terminate_options \<Rightarrow> rtcsession \<Rightarrow> js_error option \<times> rtcsession" where
  "Session_reject opts s =
     (let status_code = (if truthy_code (opt_status_code opts) then the (opt_status_code opts)
                         else 480)
      in if rtc_direction s \<noteq> Some ''incoming'' then (Some TypeError_InvalidMethod, s)
         else if rtc_status s \<noteq> STATUS_WAITING_FOR_ANSWER
         then (Some (InvalidStateError (rtc_status s)), s)
         else if status_code < 300 \<or> status_code \<ge> 700
         then (Some (TypeError_InvalidStatusCode status_code), s)
         else (None, Session_failed Local REJECTED
                 (say [RequestReply status_code (opt_reason_phrase opts)
                         (opt_extraHeaders opts) (opt_body opts)] s)))"

definition Session_sendBye ::
  "(nat \<Rightarrow> string) \<Rightarrow> terminate_options \<Rightarrow> rtcsession \<Rightarrow> js_error option \<times> rtcsession" where
  "Session_sendBye REASON_PHRASE opts s =
     (let code = opt_status_code opts
      in if truthy_code code \<and> (the code < 200 \<or> the code \<ge> 700)
         then (Some (TypeError_InvalidStatusCode (the code)), s)
         else
           (let extraHeaders =
                  (if truthy_code code
                   then opt_extraHeaders opts
                        @ [''Reason: SIP ;cause='' @ decimal (the code) @ ''; text='' @ [CHR 0x22]
                           @ reason_text REASON_PHRASE opts @ [CHR 0x22]]
                   else opt_extraHeaders opts)
            in (None, say [SendRequest BYE extraHeaders (opt_body opts)] s)))"

text \<open>An exception leaves the function at once; otherwise the next statement runs.\<close>

definition and_then ::
  "js_error option \<times> rtcsession \<Rightarrow> (rtcsession \<Rightarrow> rtcsession) \<Rightarrow> js_error option \<times> rtcsession" where
  "and_then r f = (case r of (Some e, s) \<Rightarrow> (Some e, s) | (None, s) \<Rightarrow> (None, f s))"

definition Session_terminate ::
  "(nat \<Rightarrow> string) \<Rightarrow> terminate_options \<Rightarrow> rtcsession \<Rightarrow> js_error option \<times> rtcsession" where
  "Session_terminate REASON_PHRASE opts s =
     (if rtc_status s = STATUS_TERMINATED then (Some (InvalidStateError (rtc_status s)), s)
      else if rtc_status s \<in> {STATUS_NULL, STATUS_INVITE_SENT, STATUS_1XX_RECEIVED}
      then and_then (Session_cancel REASON_PHRASE opts s) Session_close
      else if rtc_status s = STATUS_WAITING_FOR_ANSWER
      then and_then (Session_reject opts s) Session_close
      else if rtc_status s \<in> {STATUS_WAITING_FOR_ACK, STATUS_CONFIRMED}
      then and_then (Session_sendBye REASON_PHRASE opts s)
             (\<lambda>s1. Session_close (Session_ended Local BYE_CAUSE s1))
      else (None, Session_close s))"

definition no_options :: terminate_options where
  "no_options = \<lparr>opt_cause = None, opt_extraHeaders = [], opt_body = None,
                  opt_status_code = None, opt_reason_phrase = None\<rparr>"

definition session_in :: "session_status \<Rightarrow> rtcsession" where
  "session_in st =
     \<lparr>rtc_status = st, rtc_direction = Some ''outgoing'', has_connection = (st \<noteq> STATUS_TERMINATED),
      own_media_stream = False, has_dialog = (st = STATUS_CONFIRMED), early_dialogs = 0,
      in_ua_sessions = (st \<noteq> STATUS_TERMINATED), received_100 = True,
      server_transaction_terminated = True, localHold = False, remoteHold = False,
      tones = None, isCanceled = False, cancelReason = None, bye_on_ack = None, rtc_log = []\<rparr>"


section \<open>RTCSession: mangleOffer\<close>

text \<open>
  \<^verbatim>\<open>sdp_transform\<close> is a library: its \<^verbatim>\<open>parse\<close> and \<^verbatim>\<open>write\<close> are parameters. Of the
  parsed description only the list of media matters here, each with its \<^verbatim>\<open>type\<close> and
  its optional \<^verbatim>\<open>direction\<close>; \<^verbatim>\<open>!m.direction\<close> holds for an absent and for an empty
  direction.
\<close>

record media =
  m_type :: string
  m_direction :: "string option"

record session_description =
  sdp_media :: "media list"

definition holdMediaTypes :: "string list" where
  "holdMediaTypes = [''audio'', ''video'']"

definition no_direction :: "media \<Rightarrow> bool" where
  "no_direction m = (case m_direction m of None \<Rightarrow> True | Some d \<Rightarrow> d = [])"

definition mangle_local_hold :: "media \<Rightarrow> media" where
  "mangle_local_hold m =
     (if m_type m \<notin> set holdMediaTypes then m
      else if no_direction m then m\<lparr>m_direction := Some ''sendonly''\<rparr>
      else if m_direction m = Some ''sendrecv'' then m\<lparr>m_direction := Some ''sendonly''\<rparr>
      else if m_direction m = Some ''recvonly'' then m\<lparr>m_direction := Some ''inactive''\<rparr>
      else m)"

definition mangle_both_hold :: "media \<Rightarrow> media" where
  "mangle_both_hold m =
     (if m_type m \<notin> set holdMediaTypes then m
      else m\<lparr>m_direction := Some ''inactive''\<rparr>)"

definition mangle_remote_hold :: "media \<Rightarrow> media" where
  "mangle_remote_hold m =
     (if m_type m \<notin> set holdMediaTypes then m
      else if no_direction m then m\<lparr>m_direction := Some ''recvonly''\<rparr>
      else if m_direction m = Some ''sendrecv'' then m\<lparr>m_direction := Some ''recvonly''\<rparr>
      else if m_direction m = Some ''recvonly'' then m\<lparr>m_direction := Some ''inactive''\<rparr>
      else m)"

text \<open>The three passes over \<^verbatim>\<open>sdp.media\<close>, chosen by the two hold flags.\<close>

definition mangle_media :: "bool \<Rightarrow> bool \<Rightarrow> media \<Rightarrow> media" where
  "mangle_media local remote m =
     (if local \<and> \<not> remote then mangle_local_hold m
      else if local \<and> remote then mangle_both_hold m
      else if remote then mangle_remote_hold m
      else m)"

definition mangleOffer ::
  "(string \<Rightarrow> session_description) \<Rightarrow> (session_description \<Rightarrow> string) \<Rightarrow>
     rtcsession \<Rightarrow> string \<Rightarrow> string" where
  "mangleOffer parse write s sdp =
     (if \<not> localHold s \<and> \<not> remoteHold s then sdp
      else
        (let d = parse sdp
         in write (d\<lparr>sdp_media := map (mangle_media (localHold s) (remoteHold s)) (sdp_media d)\<rparr>)))"

text \<open>An offer with one audio stream and a data channel (an \<^verbatim>\<open>application\<close> media).\<close>

definition audio_and_data :: session_description where
  "audio_and_data =
     \<lparr>sdp_media = [\<lparr>m_type = ''audio'', m_direction = Some ''sendrecv''\<rparr>,
                   \<lparr>m_type = ''application'', m_direction = None\<rparr>]\<rparr>"


section \<open>RTCSession: sendDTMF\<close>

text \<open>
  The tones argument is \<^verbatim>\<open>undefined\<close>, a number (a natural number here, printed in
  decimal by \<^verbatim>\<open>toString\<close>), a string, or a value of another type. An option of
  \<^verbatim>\<open>sendDTMF\<close> is absent, a decimal number, or a value for which \<^verbatim>\<open>Utils.isDecimal\<close>
  is false. The class \<^verbatim>\<open>RTCSession_DTMF\<close> that sends one tone as an INFO request is a
  collaborator: handing it a tone is the log entry \<open>DtmfSend\<close>.
\<close>

datatype tones_argument = TonesUndefined | TonesNumber nat | TonesString string | TonesOther

datatype option_value = Missing | Decimal int | NotDecimal

record dtmf_options =
  opt_duration :: option_value
  opt_interToneGap :: option_value

text \<open>
  Modelled from the spec: the constants \<^verbatim>\<open>RTCSession_DTMF.C\<close>, whose file is not among
  the sources: default duration 100 ms (minimum 70, maximum 6000), default inter-tone gap
  500 ms (minimum 50).
\<close>

definition DEFAULT_DURATION :: int where "DEFAULT_DURATION = 100"
definition MIN_DURATION :: int where "MIN_DURATION = 70"
definition MAX_DURATION :: int where "MAX_DURATION = 6000"
definition DEFAULT_INTER_TONE_GAP :: int where "DEFAULT_INTER_TONE_GAP = 500"
definition MIN_INTER_TONE_GAP :: int where "MIN_INTER_TONE_GAP = 50"

text \<open>
  One character of \<^verbatim>\<open>/^[0-9A-DR#*,]+$/i\<close>: the flag \<^verbatim>\<open>i\<close> admits the lower-case
  letters as well.
\<close>

definition tone_char :: "char \<Rightarrow> bool" where
  "tone_char c = (c \<in> set ''0123456789ABCDR#*,abcdr'')"

definition valid_tones :: "string \<Rightarrow> bool" where
  "valid_tones t = (t \<noteq> [] \<and> list_all tone_char t)"

definition truthy_option :: "option_value \<Rightarrow> bool" where
  "truthy_option v = (case v of Missing \<Rightarrow> False | Decimal n \<Rightarrow> n \<noteq> 0 | NotDecimal \<Rightarrow> True)"

definition check_duration :: "option_value \<Rightarrow> js_error + int" where
  "check_duration v =
     (case v of
        NotDecimal \<Rightarrow> Inl TypeError_InvalidToneDuration
      | Missing \<Rightarrow> Inr DEFAULT_DURATION
      | Decimal n \<Rightarrow>
          if n = 0 then Inr DEFAULT_DURATION
          else if n < MIN_DURATION then Inr MIN_DURATION
          else if n > MAX_DURATION then Inr MAX_DURATION
          else Inr \<bar>n\<bar>)"

definition check_interToneGap :: "option_value \<Rightarrow> js_error + int" where
  "check_interToneGap v =
     (case v of
        NotDecimal \<Rightarrow> Inl TypeError_InvalidInterToneGap
      | Missing \<Rightarrow> Inr DEFAULT_INTER_TONE_GAP
      | Decimal n \<Rightarrow>
          if n = 0 then Inr DEFAULT_INTER_TONE_GAP
          else if n < MIN_INTER_TONE_GAP then Inr MIN_INTER_TONE_GAP
          else Inr \<bar>n\<bar>)"

text \<open>
  The variables that the inner function \<^verbatim>\<open>_sendDTMF\<close> closes over, and one run of it:
  it either stops (clearing the queue) or handles the tone at \<^verbatim>\<open>position\<close> and arms
  the timer that runs it again.
\<close>

record dtmf_closure =
  position :: nat
  cl_duration :: int
  cl_interToneGap :: int

definition sendDTMF_tick :: "dtmf_closure \<Rightarrow> rtcsession \<Rightarrow> dtmf_closure \<times> rtcsession" where
  "sendDTMF_tick c s =
     (case tones s of
        None \<Rightarrow> (c, s\<lparr>tones := None\<rparr>)
      | Some t \<Rightarrow>
          if rtc_status s = STATUS_TERMINATED \<or> t = [] \<or> position c \<ge> length t
          then (c, s\<lparr>tones := None\<rparr>)
          else
            (let tone = t ! position c;
                 c1 = c\<lparr>position := position c + 1\<rparr>
             in if tone = CHR '',''
                then (c1, say [SetTimeout 2000] s)
                else (c1, say [DtmfSend tone (cl_duration c1),
                               SetTimeout (cl_duration c1 + cl_interToneGap c1)] s)))"

text \<open>
  The text of the tones argument after \<^verbatim>\<open>toString\<close> of a number; \<open>None\<close> for a value
  that is neither a number nor a string.
\<close>

definition tones_text :: "tones_argument \<Rightarrow> string option" where
  "tones_text a = (case a of TonesNumber n \<Rightarrow> Some (decimal n) | TonesString t \<Rightarrow> Some t
                   | _ \<Rightarrow> None)"

definition queue_not_empty :: "rtcsession \<Rightarrow> bool" where
  "queue_not_empty s = (case tones s of None \<Rightarrow> False | Some q \<Rightarrow> q \<noteq> [])"

definition sendDTMF ::
  "tones_argument \<Rightarrow> dtmf_options \<Rightarrow> rtcsession \<Rightarrow> js_error + dtmf_closure option \<times> rtcsession" where
  "sendDTMF tones_arg options s =
     (if tones_arg = TonesUndefined then Inl TypeError_NotEnoughArguments
      else if rtc_status s \<noteq> STATUS_CONFIRMED \<and> rtc_status s \<noteq> STATUS_WAITING_FOR_ACK
      then Inl (InvalidStateError (rtc_status s))
      else
        (case tones_text tones_arg of
           None \<Rightarrow> Inl TypeError_InvalidTones
         | Some t \<Rightarrow>
             (if \<not> valid_tones t then Inl TypeError_InvalidTones
              else
                (case check_duration (opt_duration options) of
                   Inl e \<Rightarrow> Inl e
                 | Inr duration \<Rightarrow>
                     (case check_interToneGap (opt_interToneGap options) of
                        Inl e \<Rightarrow> Inl e
                      | Inr interToneGap \<Rightarrow>
                          (if queue_not_empty s
                           then Inr (None, s\<lparr>tones := Some (the (tones s) @ t)\<rparr>)
                           else
                             (let r = sendDTMF_tick
                                        \<lparr>position = 0, cl_duration = duration,
                                         cl_interToneGap = interToneGap\<rparr>
                                        (s\<lparr>tones := Some t\<rparr>)
                              in Inr (Some (fst r), snd r))))))))"

definition default_dtmf_options :: dtmf_options where
  "default_dtmf_options = \<lparr>opt_duration = Missing, opt_interToneGap = Missing\<rparr>"


section \<open>Message: one terminal event at most\<close>

lemma Message_closed_callback_noop:
  "closed m \<Longrightarrow> is_callback c \<Longrightarrow> Message_call c m = m"
  by (cases c)
    (simp_all add: Message_receiveResponse_def Message_onRequestTimeout_def
      Message_onTransportError_def)

lemma Message_call_closed_mono: "closed m \<Longrightarrow> closed (Message_call c m)"
  by (cases c)
    (simp_all add: Message_receiveResponse_def Message_onRequestTimeout_def
      Message_onTransportError_def Message_close_def)

lemma Message_call_terminal_inv:
  assumes "terminal_count m \<le> (if closed m then 1 else 0)"
  shows "terminal_count (Message_call c m) \<le> (if closed (Message_call c m) then 1 else 0)"
proof (cases "closed m")
  case True
  then show ?thesis
    using assms
    by (cases c)
      (simp_all add: Message_receiveResponse_def Message_onRequestTimeout_def
        Message_onTransportError_def Message_close_def terminal_count_def)
next
  case False
  then have "terminal_count m = 0"
    using assms by simp
  then show ?thesis
    using False
    by (cases c)
      (simp_all add: Message_receiveResponse_def Message_onRequestTimeout_def
        Message_onTransportError_def Message_close_def Message_failed_def
        Message_succeeded_def terminal_count_def Let_def)
qed

lemma Message_run_terminal_inv:
  "terminal_count m \<le> (if closed m then 1 else 0) \<Longrightarrow>
   terminal_count (Message_run cs m) \<le> (if closed (Message_run cs m) then 1 else 0)"
proof (induction cs arbitrary: m)
  case Nil
  then show ?case by simp
next
  case (Cons c cs)
  from Cons.prems have "terminal_count (Message_call c m)
      \<le> (if closed (Message_call c m) then 1 else 0)"
    by (rule Message_call_terminal_inv)
  then show ?case
    using Cons.IH by simp
qed

lemma Message_run_from_new:
  "terminal_count (Message_run cs Message_new) \<le> 1"
proof -
  have "terminal_count Message_new \<le> (if closed Message_new then 1 else 0)"
    by (simp add: terminal_count_def Message_new_def)
  from Message_run_terminal_inv [OF this, of cs] show ?thesis
    by (simp split: if_splits)
qed

lemma Message_terminal_after_close:
  "\<not> closed m \<Longrightarrow> is_callback c \<Longrightarrow> msg_log (Message_call c m) \<noteq> msg_log m \<Longrightarrow>
   (\<exists>e. is_terminal e \<and> msg_log (Message_call c m) = msg_log m @ [DestroyMessage, e])
   \<and> closed (Message_call c m)"
  by (cases c)
    (auto simp: Message_receiveResponse_def Message_onRequestTimeout_def
      Message_onTransportError_def Message_close_def Message_failed_def
      Message_succeeded_def Let_def split: if_splits)

text \<open>
  C10. Once a message is closed, \<^verbatim>\<open>receiveResponse\<close>, \<^verbatim>\<open>onRequestTimeout\<close> and
  \<^verbatim>\<open>onTransportError\<close> return the state unchanged (same flag, nothing emitted); a
  callback that does emit on an open message first closes it and then emits exactly one
  terminal event; hence, over any sequence of calls on a new message, at most one
  terminal event (\<^verbatim>\<open>succeeded\<close> or \<^verbatim>\<open>failed\<close>) is ever emitted.
\<close>

theorem Message_at_most_one_terminal_event:
  "(closed m \<and> is_callback c \<longrightarrow> Message_call c m = m)
   \<and> (\<not> closed m \<and> is_callback c \<and> msg_log (Message_call c m) \<noteq> msg_log m \<longrightarrow>
        (\<exists>e. is_terminal e \<and> msg_log (Message_call c m) = msg_log m @ [DestroyMessage, e])
        \<and> closed (Message_call c m))
   \<and> terminal_count (Message_run cs Message_new) \<le> 1"
  using Message_closed_callback_noop [of m c] Message_terminal_after_close [of m c]
    Message_run_from_new [of cs]
  by blast

theorem Message_at_most_one_terminal_event_witness:
  "Message_call (ReceiveResponse 200) (Message_call OnRequestTimeout Message_new)
     = Message_call OnRequestTimeout Message_new
   \<and> closed (Message_call (ReceiveResponse 486) Message_new)
   \<and> terminal_count
       (Message_run [ReceiveResponse 180, ReceiveResponse 200, OnTransportError,
          ReceiveResponse 500] Message_new) \<le> 1"
proof -
  let ?m = "Message_call OnRequestTimeout Message_new"
  let ?cs = "[ReceiveResponse 180, ReceiveResponse 200, OnTransportError,
          ReceiveResponse 500]"
  have c: "closed ?m \<and> is_callback (ReceiveResponse 200)"
    by (simp add: Message_onRequestTimeout_def Message_failed_def Message_close_def
        Message_new_def Let_def)
  have o: "\<not> closed Message_new \<and> is_callback (ReceiveResponse 486)
      \<and> msg_log (Message_call (ReceiveResponse 486) Message_new) \<noteq> msg_log Message_new"
    by (simp add: Message_receiveResponse_def Message_failed_def Message_close_def
        Message_new_def Let_def is_1xx_def is_2xx_def)
  have "Message_call (ReceiveResponse 200) ?m = ?m"
    using Message_at_most_one_terminal_event [of ?m "ReceiveResponse 200" ?cs] c
    by blast
  moreover have "closed (Message_call (ReceiveResponse 486) Message_new)"
    using Message_at_most_one_terminal_event [of Message_new "ReceiveResponse 486" ?cs] o
    by blast
  moreover have "terminal_count (Message_run ?cs Message_new) \<le> 1"
    using Message_at_most_one_terminal_event [of Message_new "ReceiveResponse 486" ?cs]
    by blast
  ultimately show ?thesis by blast
qed

section \<open>RequestSender: the UserClosed gate\<close>

text \<open>
  C1. The constructor's source comment says that a closing UA "just allow[s] sending Bye
  and ACK", but its test \<^verbatim>\<open>method !== BYE || method !== ACK\<close> holds for every
  method: whatever the request, a sender created while the UA is UserClosed signals
  \<^verbatim>\<open>onTransportError\<close> at once, for a BYE and for an ACK too.
\<close>

theorem RequestSender_UserClosed_rejects_every_method:
  "rs_log (RequestSender_new STATUS_USER_CLOSED conf req n dlg) = [ApplicantOnTransportError]"
proof -
  have "req_method req \<noteq> BYE \<or> req_method req \<noteq> ACK"
    by (auto simp: BYE_def ACK_def)
  then show ?thesis
    by (simp add: RequestSender_new_def RequestSender_onTransportError_def Let_def)
qed

theorem RequestSender_UserClosed_rejects_BYE_witness:
  "rs_log (RequestSender_new STATUS_USER_CLOSED with_password (request_of BYE 1) 0 None)
     = [ApplicantOnTransportError]
   \<and> rs_log (RequestSender_new STATUS_USER_CLOSED with_password (request_of ACK 1) 0 None)
     = [ApplicantOnTransportError]"
  using RequestSender_UserClosed_rejects_every_method [of with_password "request_of BYE 1" 0 None]
    RequestSender_UserClosed_rejects_every_method [of with_password "request_of ACK 1" 0 None]
  by simp


section \<open>RequestSender: how many digest retries\<close>

lemma forward_keeps_sends [simp]: "sends (forward_to_applicant r s) = sends s"
  by (simp add: sends_def forward_to_applicant_def)

lemma forward_keeps_budget [simp]: "retry_budget (forward_to_applicant r s) = retry_budget s"
  by (simp add: retry_budget_def forward_to_applicant_def)

lemma send_adds_one [simp]: "sends (RequestSender_send s) = sends s + 1"
  by (simp add: sends_def RequestSender_send_def Let_def)

lemma send_keeps_flags [simp]:
  "challenged (RequestSender_send s) = challenged s"
  "staled (RequestSender_send s) = staled s"
  by (simp_all add: RequestSender_send_def Let_def)

lemma next_cseq_keeps [simp]:
  "challenged (snd (next_cseq r s)) = challenged s"
  "staled (snd (next_cseq r s)) = staled s"
  "rs_log (snd (next_cseq r s)) = rs_log s"
  by (simp_all add: next_cseq_def split: option.splits)

















section \<open>Registrator: 423 Interval Too Brief\<close>

text \<open>
  C2. A 423 with \<^verbatim>\<open>Min-Expires: 3600\<close> reaches a registrar client that asked for 600 s.
  The branch reads the header and computes \<^verbatim>\<open>min_expires - this.expires\<close> into a local
  that is never used: \<^verbatim>\<open>this.expires\<close> stays 600, the retry is put on a timer of
  600 s, and the REGISTER sent when it fires asks for 600 s again. Without the header
  the branch does report \<^verbatim>\<open>registrationFailed\<close> and arms no timer.
\<close>

theorem Registrator_423_keeps_expires:
  "expires (Registrator_receiveResponse (interval_too_brief (Some 3600)) registrator_600) = 600
   \<and> registrationTimer (Registrator_receiveResponse (interval_too_brief (Some 3600)) registrator_600)
       = Some 600000
   \<and> reg_log (Registrator_timer_fires
         (Registrator_receiveResponse (interval_too_brief (Some 3600)) registrator_600))
       = [SendRegister 81 600, SendRegister 82 600]
   \<and> reg_log (Registrator_receiveResponse (interval_too_brief None) registrator_600)
       = [SendRegister 81 600, EmitRegistrationFailed SIP_FAILURE_CODE]
   \<and> registrationTimer (Registrator_receiveResponse (interval_too_brief None) registrator_600)
       = None"
  by (simp add: Registrator_receiveResponse_def Registrator_timer_fires_def
      Registrator_register_def registrationFailure_def interval_too_brief_def
      registrator_600_def is_1xx_def is_2xx_def Let_def)

theorem Registrator_423_keeps_expires_witness:
  "expires (Registrator_receiveResponse (interval_too_brief (Some 3600)) registrator_600) \<noteq> 3600"
  using Registrator_423_keeps_expires by simp


section \<open>UA: the recovery backoff\<close>












section \<open>Session.RequestSender: the 491 timer\<close>

lemma toFixed2_bounds:
  "x - 1 / 200 \<le> toFixed2 x \<and> toFixed2 x \<le> x + 1 / 200"
proof -
  have "of_int \<lfloor>x * 100 + 1 / 2\<rfloor> \<le> x * 100 + 1 / 2"
    by (rule of_int_floor_le)
  moreover have "x * 100 + 1 / 2 < of_int \<lfloor>x * 100 + 1 / 2\<rfloor> + 1"
    by (rule floor_correct [THEN conjunct2, simplified]) 
  ultimately show ?thesis
    by (simp add: toFixed2_def field_simps)
qed

text \<open>
  C4. A 491 to a re-INVITE on an outgoing session, with \<^verbatim>\<open>Math.random()\<close> giving 1/2:
  the CSeq goes from 7 to 8 and one timer is armed, but the delay handed to
  \<^verbatim>\<open>setTimeout\<close> is 3.05, that is 3.05 milliseconds and not 3.05 seconds (3050 ms).
  For an incoming session the delay is 1 millisecond. When the timer fires, the request
  is sent once, and a second 491 is passed to the applicant.
\<close>

theorem reattempt_timer_is_milliseconds:
  "reatemptTimer (SessionRequestSender_receiveResponse (1 / 2) INVITE 491
       (reinvite_sender ''outgoing'')) = Some (61 / 20)
   \<and> reatemptTimer (SessionRequestSender_receiveResponse (1 / 2) INVITE 491
       (reinvite_sender ''incoming'')) = Some 1
   \<and> srs_request_cseq (SessionRequestSender_receiveResponse (1 / 2) INVITE 491
       (reinvite_sender ''outgoing'')) = 8
   \<and> srs_log (SessionRequestSender_receiveResponse (1 / 2) INVITE 491
        (reattempt_timeout (SessionRequestSender_receiveResponse (1 / 2) INVITE 491
          (reinvite_sender ''outgoing''))))
      = [InDialogSend 7, InDialogSend 8, SessionApplicantReceiveResponse INVITE 491]"
  by (simp add: SessionRequestSender_receiveResponse_def reattempt_timeout_def
      getReattemptTimeout_def toFixed2_def reinvite_sender_def INVITE_def Let_def
      floor_eq_iff)

theorem reattempt_timer_is_milliseconds_witness:
  "reatemptTimer (SessionRequestSender_receiveResponse (1 / 2) INVITE 491
       (reinvite_sender ''outgoing'')) \<noteq> Some 3050"
  using reattempt_timer_is_milliseconds by simp

lemma getReattemptTimeout_range:
  assumes "0 \<le> r" "r < 1"
  shows "getReattemptTimeout ''outgoing'' r \<le> 4 + 1 / 200"
    and "getReattemptTimeout ''incoming'' r \<le> 2 + 1 / 200"
proof -
  have "toFixed2 (r * (4 - 21 / 10) + 21 / 10) \<le> (r * (4 - 21 / 10) + 21 / 10) + 1 / 200"
    using toFixed2_bounds by blast
  also have "\<dots> \<le> 4 + 1 / 200"
    using assms by simp
  finally show "getReattemptTimeout ''outgoing'' r \<le> 4 + 1 / 200"
    by (simp add: getReattemptTimeout_def)
  have "toFixed2 (r * 2) \<le> r * 2 + 1 / 200"
    using toFixed2_bounds by blast
  also have "\<dots> \<le> 2 + 1 / 200"
    using assms by simp
  finally show "getReattemptTimeout ''incoming'' r \<le> 2 + 1 / 200"
    by (simp add: getReattemptTimeout_def)
qed


section \<open>NameAddrHeader: printing without a display name\<close>

lemma toLowerCase_eval:
  "toLowerCase ''headerParam'' = ''headerparam''"
  "toLowerCase ''Transport'' = ''transport''"
  "toLowerCase ''transport'' = ''transport''"
  by (simp_all add: toLowerCase_def toLowerCase_char_def)

lemma bob_toString: "URI_toString bob = ''sip:bob@biloxi.com''"
  by (simp add: URI_toString_def bob_def encodeURIComponent_def unreserved_def
      print_parameters_def SIP_def Let_def)

lemma bob_ws_toString:
  "URI_toString (bob\<lparr>uri_parameters := [(''transport'', Some ''ws'')]\<rparr>)
     = ''sip:bob@biloxi.com;transport=ws''"
  by (simp add: URI_toString_def bob_def encodeURIComponent_def unreserved_def
      print_parameters_def print_parameter_def toLowerCase_eval SIP_def Let_def)

text \<open>
  C9. Without a display name \<^verbatim>\<open>toString\<close> prints the URI bare, so header parameters
  follow it exactly as URI parameters would. The test file of the repository expects
  \<^verbatim>\<open><sip:bob@biloxi.com>;headerparam\<close> for its second Contact; the code prints
  \<^verbatim>\<open>sip:bob@biloxi.com;headerparam\<close>. A header whose URI has the parameter
  \<^verbatim>\<open>transport=ws\<close> and a header that has it as its own parameter print the same text,
  though their URIs and their parameters differ: no parser can give both back.
\<close>

theorem NameAddrHeader_toString_ambiguous:
  "NameAddrHeader_toString contact_c2 = ''sip:bob@biloxi.com;headerparam''
   \<and> NameAddrHeader_toString param_in_uri = ''sip:bob@biloxi.com;transport=ws''
   \<and> NameAddrHeader_toString param_in_header = ''sip:bob@biloxi.com;transport=ws''
   \<and> na_uri param_in_uri \<noteq> na_uri param_in_header
   \<and> na_parameters param_in_uri \<noteq> na_parameters param_in_header"
proof -
  have "NameAddrHeader_toString contact_c2 = ''sip:bob@biloxi.com;headerparam''"
    by (simp add: NameAddrHeader_toString_def NameAddrHeader_new_def contact_c2_def
        setParam_def toLowerCase_eval bob_toString print_parameters_def print_parameter_def)
  moreover have "NameAddrHeader_toString param_in_uri = ''sip:bob@biloxi.com;transport=ws''"
    by (simp add: NameAddrHeader_toString_def NameAddrHeader_new_def param_in_uri_def
        bob_ws_toString print_parameters_def)
  moreover have "NameAddrHeader_toString param_in_header = ''sip:bob@biloxi.com;transport=ws''"
    by (simp add: NameAddrHeader_toString_def NameAddrHeader_new_def param_in_header_def
        setParam_def toLowerCase_eval bob_toString print_parameters_def print_parameter_def)
  moreover have "na_uri param_in_uri \<noteq> na_uri param_in_header"
    by (simp add: NameAddrHeader_new_def param_in_uri_def param_in_header_def bob_def)
  moreover have "na_parameters param_in_uri \<noteq> na_parameters param_in_header"
    by (simp add: NameAddrHeader_new_def param_in_uri_def param_in_header_def setParam_def)
  ultimately show ?thesis by blast
qed

theorem NameAddrHeader_toString_ambiguous_witness:
  "\<not> (\<exists>parse. \<forall>h. parse (NameAddrHeader_toString h) = h)"
proof
  assume "\<exists>parse. \<forall>h. parse (NameAddrHeader_toString h) = h"
  then obtain parse where p: "\<And>h. parse (NameAddrHeader_toString h) = h"
    by blast
  have "NameAddrHeader_toString param_in_uri = NameAddrHeader_toString param_in_header"
    using NameAddrHeader_toString_ambiguous by simp
  then have "parse (NameAddrHeader_toString param_in_uri)
      = parse (NameAddrHeader_toString param_in_header)"
    by (rule arg_cong)
  then have "param_in_uri = param_in_header"
    by (simp only: p)
  then have "na_uri param_in_uri = na_uri param_in_header"
    by (rule arg_cong)
  then show False
    using NameAddrHeader_toString_ambiguous by blast
qed


section \<open>terminate on a terminated session\<close>

text \<open>
  C8, as the code has it. Both session classes begin \<^verbatim>\<open>terminate\<close> with a check of the
  status: on a session that is already Terminated the call changes no state and sends
  nothing, and it throws \<^verbatim>\<open>InvalidStateError\<close>.
\<close>

theorem terminate_on_terminated_throws:
  assumes "rtc_status s = STATUS_TERMINATED"
  shows "RTCSession_terminate REASON_PHRASE opts s = (Some (InvalidStateError STATUS_TERMINATED), s)
    \<and> Session_terminate REASON_PHRASE opts s = (Some (InvalidStateError STATUS_TERMINATED), s)"
  using assms by (simp add: RTCSession_terminate_def Session_terminate_def Let_def)

theorem terminate_on_terminated_throws_witness:
  "RTCSession_terminate (\<lambda>_. []) no_options (session_in STATUS_TERMINATED)
     = (Some (InvalidStateError STATUS_TERMINATED), session_in STATUS_TERMINATED)
   \<and> Session_terminate (\<lambda>_. []) no_options (session_in STATUS_TERMINATED)
     = (Some (InvalidStateError STATUS_TERMINATED), session_in STATUS_TERMINATED)"
proof -
  have "rtc_status (session_in STATUS_TERMINATED) = STATUS_TERMINATED"
    by (simp add: session_in_def)
  then show ?thesis
    using terminate_on_terminated_throws by blast
qed

text \<open>
  C8 as worded fails: the second \<^verbatim>\<open>terminate()\<close> on a session raises an error. Here a
  confirmed session is terminated (a BYE is sent and \<^verbatim>\<open>ended\<close> emitted), and
  \<^verbatim>\<open>terminate()\<close> is called again on the resulting state.
\<close>

theorem terminate_twice_counterexample:
  "fst (RTCSession_terminate (\<lambda>_. []) no_options (session_in STATUS_CONFIRMED)) = None
   \<and> rtc_status (snd (RTCSession_terminate (\<lambda>_. []) no_options (session_in STATUS_CONFIRMED)))
       = STATUS_TERMINATED
   \<and> fst (RTCSession_terminate (\<lambda>_. []) no_options
         (snd (RTCSession_terminate (\<lambda>_. []) no_options (session_in STATUS_CONFIRMED))))
       = Some (InvalidStateError STATUS_TERMINATED)"
  by (simp add: RTCSession_terminate_def ended_def RTCSession_close_def say_def
      session_in_def no_options_def truthy_code_def Let_def)


section \<open>mangleOffer: directions under hold\<close>

lemma in_holdMediaTypes: "(t \<in> set holdMediaTypes) = (t = ''audio'' \<or> t = ''video'')"
  by (auto simp: holdMediaTypes_def)

lemma mangle_media_type [simp]: "m_type (mangle_media l r m) = m_type m"
  by (simp add: mangle_media_def mangle_local_hold_def mangle_both_hold_def
      mangle_remote_hold_def)

lemma mangle_media_other:
  "m_type m \<notin> set holdMediaTypes \<Longrightarrow> mangle_media l r m = m"
  by (simp add: mangle_media_def mangle_local_hold_def mangle_both_hold_def
      mangle_remote_hold_def)

lemma mangle_media_local:
  assumes "m_type m \<in> set holdMediaTypes"
  shows "(no_direction m \<or> m_direction m = Some ''sendrecv''
            \<longrightarrow> m_direction (mangle_media True False m) = Some ''sendonly'')
    \<and> (m_direction m = Some ''recvonly''
            \<longrightarrow> m_direction (mangle_media True False m) = Some ''inactive'')"
  using assms
  by (auto simp: mangle_media_def mangle_local_hold_def no_direction_def)

lemma mangle_media_remote:
  assumes "m_type m \<in> set holdMediaTypes"
  shows "no_direction m \<or> m_direction m = Some ''sendrecv''
            \<longrightarrow> m_direction (mangle_media False True m) = Some ''recvonly''"
  using assms
  by (auto simp: mangle_media_def mangle_remote_hold_def no_direction_def)

lemma mangle_media_both:
  "m_type m \<in> set holdMediaTypes \<Longrightarrow> m_direction (mangle_media True True m) = Some ''inactive''"
  by (simp add: mangle_media_def mangle_both_hold_def)

text \<open>
  C6, as the code has it by design. With neither side holding, the offer text is
  returned as it is. Otherwise the parsed offer goes to \<^verbatim>\<open>write\<close> with the same media
  in the same order, where only audio and video media are touched: under local-only hold
  \<^verbatim>\<open>sendrecv\<close> or no direction becomes \<^verbatim>\<open>sendonly\<close> and \<^verbatim>\<open>recvonly\<close> becomes
  \<^verbatim>\<open>inactive\<close>; under remote-only hold \<^verbatim>\<open>sendrecv\<close> or no direction becomes
  \<^verbatim>\<open>recvonly\<close>; when both hold, every audio and video direction is \<^verbatim>\<open>inactive\<close>.
\<close>

theorem mangleOffer_directions:
  "(\<not> localHold s \<and> \<not> remoteHold s \<longrightarrow> mangleOffer parse write s sdp = sdp)
   \<and> (localHold s \<or> remoteHold s \<longrightarrow>
        mangleOffer parse write s sdp
          = write ((parse sdp)\<lparr>sdp_media :=
              map (mangle_media (localHold s) (remoteHold s)) (sdp_media (parse sdp))\<rparr>))
   \<and> m_type (mangle_media l r m) = m_type m
   \<and> (m_type m \<noteq> ''audio'' \<and> m_type m \<noteq> ''video'' \<longrightarrow> mangle_media l r m = m)
   \<and> (m_type m = ''audio'' \<or> m_type m = ''video'' \<longrightarrow>
        (no_direction m \<or> m_direction m = Some ''sendrecv''
           \<longrightarrow> m_direction (mangle_media True False m) = Some ''sendonly'')
        \<and> (m_direction m = Some ''recvonly''
           \<longrightarrow> m_direction (mangle_media True False m) = Some ''inactive'')
        \<and> (no_direction m \<or> m_direction m = Some ''sendrecv''
           \<longrightarrow> m_direction (mangle_media False True m) = Some ''recvonly'')
        \<and> m_direction (mangle_media True True m) = Some ''inactive'')"
proof -
  have "\<not> localHold s \<and> \<not> remoteHold s \<longrightarrow> mangleOffer parse write s sdp = sdp"
    by (simp add: mangleOffer_def)
  moreover have "localHold s \<or> remoteHold s \<longrightarrow>
        mangleOffer parse write s sdp
          = write ((parse sdp)\<lparr>sdp_media :=
              map (mangle_media (localHold s) (remoteHold s)) (sdp_media (parse sdp))\<rparr>)"
    by (auto simp: mangleOffer_def Let_def)
  moreover have "m_type m \<noteq> ''audio'' \<and> m_type m \<noteq> ''video'' \<longrightarrow> mangle_media l r m = m"
    using mangle_media_other [of m l r] by (simp add: in_holdMediaTypes)
  moreover have "m_type m = ''audio'' \<or> m_type m = ''video'' \<longrightarrow>
        (no_direction m \<or> m_direction m = Some ''sendrecv''
           \<longrightarrow> m_direction (mangle_media True False m) = Some ''sendonly'')
        \<and> (m_direction m = Some ''recvonly''
           \<longrightarrow> m_direction (mangle_media True False m) = Some ''inactive'')
        \<and> (no_direction m \<or> m_direction m = Some ''sendrecv''
           \<longrightarrow> m_direction (mangle_media False True m) = Some ''recvonly'')
        \<and> m_direction (mangle_media True True m) = Some ''inactive''"
    using mangle_media_local [of m] mangle_media_remote [of m] mangle_media_both [of m]
    by (simp add: in_holdMediaTypes)
  ultimately show ?thesis
    by simp
qed

theorem mangleOffer_directions_witness:
  "mangleOffer (\<lambda>_. audio_and_data) (\<lambda>d. concat (map m_type (sdp_media d)))
       (session_in STATUS_CONFIRMED) ''v=0'' = ''v=0''
   \<and> mangleOffer (\<lambda>_. audio_and_data)
       (\<lambda>d. concat (map (\<lambda>m. the (m_direction m)) (sdp_media d)))
       ((session_in STATUS_CONFIRMED)\<lparr>localHold := True\<rparr>) ''v=0''
       = concat (map (\<lambda>m. the (m_direction m))
           (map (mangle_media True False) (sdp_media audio_and_data)))
   \<and> mangle_media True False \<lparr>m_type = ''application'', m_direction = None\<rparr>
       = \<lparr>m_type = ''application'', m_direction = None\<rparr>
   \<and> m_direction (mangle_media True False \<lparr>m_type = ''audio'', m_direction = Some ''sendrecv''\<rparr>)
       = Some ''sendonly''
   \<and> m_direction (mangle_media True False \<lparr>m_type = ''video'', m_direction = Some ''recvonly''\<rparr>)
       = Some ''inactive''
   \<and> m_direction (mangle_media False True \<lparr>m_type = ''audio'', m_direction = Some ''sendrecv''\<rparr>)
       = Some ''recvonly''
   \<and> m_direction (mangle_media True True \<lparr>m_type = ''audio'', m_direction = Some ''sendonly''\<rparr>)
       = Some ''inactive''"
proof -
  let ?s = "session_in STATUS_CONFIRMED"
  let ?app = "\<lparr>m_type = ''application'', m_direction = None\<rparr>"
  let ?a = "\<lparr>m_type = ''audio'', m_direction = Some ''sendrecv''\<rparr>"
  let ?v = "\<lparr>m_type = ''video'', m_direction = Some ''recvonly''\<rparr>"
  let ?o = "\<lparr>m_type = ''audio'', m_direction = Some ''sendonly''\<rparr>"
  have flags: "\<not> localHold ?s \<and> \<not> remoteHold ?s"
    "localHold (?s\<lparr>localHold := True\<rparr>) \<or> remoteHold (?s\<lparr>localHold := True\<rparr>)"
    "localHold (?s\<lparr>localHold := True\<rparr>) = True" "remoteHold (?s\<lparr>localHold := True\<rparr>) = False"
    by (simp_all add: session_in_def)
  have "mangleOffer (\<lambda>_. audio_and_data) (\<lambda>d. concat (map m_type (sdp_media d))) ?s ''v=0''
      = ''v=0''"
    using mangleOffer_directions [of ?s "\<lambda>_. audio_and_data"
        "\<lambda>d. concat (map m_type (sdp_media d))" "''v=0''" True False ?app] flags(1)
    by blast
  moreover have "mangleOffer (\<lambda>_. audio_and_data)
       (\<lambda>d. concat (map (\<lambda>m. the (m_direction m)) (sdp_media d)))
       (?s\<lparr>localHold := True\<rparr>) ''v=0''
       = concat (map (\<lambda>m. the (m_direction m))
           (map (mangle_media True False) (sdp_media audio_and_data)))"
    using mangleOffer_directions [of "?s\<lparr>localHold := True\<rparr>" "\<lambda>_. audio_and_data"
        "\<lambda>d. concat (map (\<lambda>m. the (m_direction m)) (sdp_media d))" "''v=0''" True False ?app]
      flags(2)
    by (simp add: flags(3,4))
  moreover have "mangle_media True False ?app = ?app"
    using mangleOffer_directions [of ?s "\<lambda>_. audio_and_data"
        "\<lambda>d. concat (map m_type (sdp_media d))" "''v=0''" True False ?app]
    by simp
  moreover have "m_direction (mangle_media True False ?a) = Some ''sendonly''"
    using mangleOffer_directions [of ?s "\<lambda>_. audio_and_data"
        "\<lambda>d. concat (map m_type (sdp_media d))" "''v=0''" True False ?a]
    by simp
  moreover have "m_direction (mangle_media True False ?v) = Some ''inactive''"
    using mangleOffer_directions [of ?s "\<lambda>_. audio_and_data"
        "\<lambda>d. concat (map m_type (sdp_media d))" "''v=0''" True False ?v]
    by simp
  moreover have "m_direction (mangle_media False True ?a) = Some ''recvonly''"
    using mangleOffer_directions [of ?s "\<lambda>_. audio_and_data"
        "\<lambda>d. concat (map m_type (sdp_media d))" "''v=0''" True False ?a]
    by simp
  moreover have "m_direction (mangle_media True True ?o) = Some ''inactive''"
    using mangleOffer_directions [of ?s "\<lambda>_. audio_and_data"
        "\<lambda>d. concat (map m_type (sdp_media d))" "''v=0''" True False ?o]
    by simp
  ultimately show ?thesis by blast
qed

text \<open>
  C6 as worded fails. With both sides holding, an offer with an audio stream and a data
  channel keeps the data channel as it was, so not every media direction of the result
  is \<^verbatim>\<open>inactive\<close>.
\<close>

theorem mangleOffer_both_hold_counterexample:
  "map (mangle_media True True) (sdp_media audio_and_data)
     = [\<lparr>m_type = ''audio'', m_direction = Some ''inactive''\<rparr>,
        \<lparr>m_type = ''application'', m_direction = None\<rparr>]
   \<and> \<not> list_all (\<lambda>m. m_direction m = Some ''inactive'')
         (map (mangle_media True True) (sdp_media audio_and_data))"
  by (simp add: audio_and_data_def mangle_media_def mangle_both_hold_def holdMediaTypes_def)

text \<open>
  Under remote-only hold the third test of the loop repeats the one of the local-hold
  loop: \<^verbatim>\<open>sendonly\<close> is left as it is and \<^verbatim>\<open>recvonly\<close> becomes \<^verbatim>\<open>inactive\<close>.
\<close>

lemma mangle_remote_hold_sendonly:
  "mangle_media False True \<lparr>m_type = ''audio'', m_direction = Some ''sendonly''\<rparr>
     = \<lparr>m_type = ''audio'', m_direction = Some ''sendonly''\<rparr>
   \<and> mangle_media False True \<lparr>m_type = ''audio'', m_direction = Some ''recvonly''\<rparr>
     = \<lparr>m_type = ''audio'', m_direction = Some ''inactive''\<rparr>"
  by (simp add: mangle_media_def mangle_remote_hold_def holdMediaTypes_def no_direction_def)


section \<open>sendDTMF: the tones it accepts and the pause\<close>

lemma check_duration_decimal:
  "v \<noteq> NotDecimal \<Longrightarrow> \<exists>d. check_duration v = Inr d"
  by (cases v) (auto simp: check_duration_def)

lemma check_interToneGap_decimal:
  "v \<noteq> NotDecimal \<Longrightarrow> \<exists>g. check_interToneGap v = Inr g"
  by (cases v) (auto simp: check_interToneGap_def)

lemma sendDTMF_string_result:
  assumes "rtc_status s = STATUS_CONFIRMED \<or> rtc_status s = STATUS_WAITING_FOR_ACK"
    and "opt_duration options \<noteq> NotDecimal" "opt_interToneGap options \<noteq> NotDecimal"
  shows "(sendDTMF (TonesString t) options s = Inl TypeError_InvalidTones) = (\<not> valid_tones t)"
    and "(\<exists>r. sendDTMF (TonesString t) options s = Inr r) = valid_tones t"
proof -
  obtain d where d: "check_duration (opt_duration options) = Inr d"
    using assms(2) check_duration_decimal by blast
  obtain g where g: "check_interToneGap (opt_interToneGap options) = Inr g"
    using assms(3) check_interToneGap_decimal by blast
  have st: "\<not> (rtc_status s \<noteq> STATUS_CONFIRMED \<and> rtc_status s \<noteq> STATUS_WAITING_FOR_ACK)"
    using assms(1) by blast
  show "(sendDTMF (TonesString t) options s = Inl TypeError_InvalidTones) = (\<not> valid_tones t)"
    using st d g by (simp add: sendDTMF_def tones_text_def Let_def)
  show "(\<exists>r. sendDTMF (TonesString t) options s = Inr r) = valid_tones t"
    using st d g by (simp add: sendDTMF_def tones_text_def Let_def)
qed

lemma sendDTMF_tick_comma:
  assumes "tones s = Some t" "position c < length t" "t ! position c = CHR '',''"
    and "rtc_status s \<noteq> STATUS_TERMINATED"
  shows "sendDTMF_tick c s = (c\<lparr>position := position c + 1\<rparr>, say [SetTimeout 2000] s)"
  using assms by (auto simp: sendDTMF_tick_def Let_def)

lemma valid_tones_iff:
  "valid_tones t = (t \<noteq> [] \<and> (\<forall>c \<in> set t. c \<in> set ''0123456789ABCDR#*,abcdr''))"
  by (simp add: valid_tones_def tone_char_def list_all_iff)

text \<open>
  C7, as the code has it. On a session that is Confirmed or waiting for the ACK, and with
  options that are absent or decimal, \<^verbatim>\<open>sendDTMF\<close> throws the TypeError for invalid tones
  exactly for the strings that are empty or have a character outside
  \<^verbatim>\<open>0-9 A-D R # * ,\<close> in either case, and returns normally for all others. A comma in
  the queue sends nothing and arms a timer of 2000 ms before the next tone.
\<close>

theorem sendDTMF_alphabet_and_pause:
  assumes "rtc_status s = STATUS_CONFIRMED \<or> rtc_status s = STATUS_WAITING_FOR_ACK"
    and "opt_duration options \<noteq> NotDecimal" "opt_interToneGap options \<noteq> NotDecimal"
  shows "((sendDTMF (TonesString t) options s = Inl TypeError_InvalidTones)
           = (t = [] \<or> (\<exists>c \<in> set t. c \<notin> set ''0123456789ABCDR#*,abcdr'')))
    \<and> ((\<exists>r. sendDTMF (TonesString t) options s = Inr r)
           = (t \<noteq> [] \<and> (\<forall>c \<in> set t. c \<in> set ''0123456789ABCDR#*,abcdr'')))
    \<and> (tones s = Some q \<and> position c < length q \<and> q ! position c = CHR '',''
          \<longrightarrow> sendDTMF_tick c s = (c\<lparr>position := position c + 1\<rparr>, say [SetTimeout 2000] s))"
proof -
  have "rtc_status s \<noteq> STATUS_TERMINATED"
    using assms(1) by auto
  then have "tones s = Some q \<and> position c < length q \<and> q ! position c = CHR '',''
          \<longrightarrow> sendDTMF_tick c s = (c\<lparr>position := position c + 1\<rparr>, say [SetTimeout 2000] s)"
    using sendDTMF_tick_comma [of s q c] by blast
  moreover have "(sendDTMF (TonesString t) options s = Inl TypeError_InvalidTones)
           = (t = [] \<or> (\<exists>c \<in> set t. c \<notin> set ''0123456789ABCDR#*,abcdr''))"
    using sendDTMF_string_result(1) [OF assms, of t] valid_tones_iff [of t] by blast
  moreover have "(\<exists>r. sendDTMF (TonesString t) options s = Inr r)
           = (t \<noteq> [] \<and> (\<forall>c \<in> set t. c \<in> set ''0123456789ABCDR#*,abcdr''))"
    using sendDTMF_string_result(2) [OF assms, of t] valid_tones_iff [of t] by blast
  ultimately show ?thesis by blast
qed

theorem sendDTMF_alphabet_and_pause_witness:
  "(\<exists>r. sendDTMF (TonesString ''1r,'') default_dtmf_options (session_in STATUS_CONFIRMED) = Inr r)
   \<and> sendDTMF (TonesString ''1E'') default_dtmf_options (session_in STATUS_CONFIRMED)
       = Inl TypeError_InvalidTones
   \<and> sendDTMF_tick \<lparr>position = 1, cl_duration = 100, cl_interToneGap = 500\<rparr>
        ((session_in STATUS_CONFIRMED)\<lparr>tones := Some ''1,2''\<rparr>)
       = (\<lparr>position = 2, cl_duration = 100, cl_interToneGap = 500\<rparr>,
          say [SetTimeout 2000] ((session_in STATUS_CONFIRMED)\<lparr>tones := Some ''1,2''\<rparr>))"
proof -
  let ?s = "session_in STATUS_CONFIRMED"
  let ?q = "?s\<lparr>tones := Some ''1,2''\<rparr>"
  let ?c = "\<lparr>position = 1, cl_duration = 100, cl_interToneGap = 500\<rparr>"
  have st: "rtc_status ?s = STATUS_CONFIRMED \<or> rtc_status ?s = STATUS_WAITING_FOR_ACK"
    "rtc_status ?q = STATUS_CONFIRMED \<or> rtc_status ?q = STATUS_WAITING_FOR_ACK"
    by (simp_all add: session_in_def)
  have op: "opt_duration default_dtmf_options \<noteq> NotDecimal"
    "opt_interToneGap default_dtmf_options \<noteq> NotDecimal"
    by (simp_all add: default_dtmf_options_def)
  have comma: "tones ?q = Some ''1,2'' \<and> position ?c < length ''1,2''
      \<and> ''1,2'' ! position ?c = CHR '',''"
    by simp
  have "\<exists>r. sendDTMF (TonesString ''1r,'') default_dtmf_options ?s = Inr r"
    using sendDTMF_alphabet_and_pause [OF st(1) op, of "''1r,''" "''''" ?c] by simp
  moreover have "sendDTMF (TonesString ''1E'') default_dtmf_options ?s = Inl TypeError_InvalidTones"
    using sendDTMF_alphabet_and_pause [OF st(1) op, of "''1E''" "''''" ?c] by simp
  moreover have "sendDTMF_tick ?c ?q = (?c\<lparr>position := position ?c + 1\<rparr>, say [SetTimeout 2000] ?q)"
    using sendDTMF_alphabet_and_pause [OF st(2) op, of "''1''" "''1,2''" ?c] comma by blast
  ultimately show ?thesis by simp
qed

text \<open>
  C7 as worded fails. For the tones \<^verbatim>\<open>,\<close> nothing is sent and the timer armed before
  the next tone is 2000 ms, not 200 ms; and the check of the tones does not reject
  \<^verbatim>\<open>r\<close>, which is outside \<^verbatim>\<open>[0-9A-D#*,]\<close>.
\<close>

theorem sendDTMF_comma_counterexample:
  "sendDTMF (TonesString '','') default_dtmf_options (session_in STATUS_CONFIRMED)
     = Inr (Some \<lparr>position = 1, cl_duration = 100, cl_interToneGap = 500\<rparr>,
            (session_in STATUS_CONFIRMED)\<lparr>tones := Some '','', rtc_log := [SetTimeout 2000]\<rparr>)
   \<and> sendDTMF (TonesString ''r'') default_dtmf_options (session_in STATUS_CONFIRMED)
       \<noteq> Inl TypeError_InvalidTones"
  by (simp add: sendDTMF_def sendDTMF_tick_def tones_text_def valid_tones_def tone_char_def
      check_duration_def check_interToneGap_def queue_not_empty_def default_dtmf_options_def
      session_in_def say_def DEFAULT_DURATION_def DEFAULT_INTER_TONE_GAP_def Let_def)

end
